theory Spec2Isabelle
  imports Complex_Main "HOL-Library.Monad_Syntax" "HOL-Library.Log_Nat"
begin

section \<open>Values of a decoded notification payload\<close>

text \<open>
  The payload of a notification is what the msgpack-rpc client decoded: nil, booleans,
  integers, strings, arrays and maps (objects with string keys; a lookup takes the first
  binding of a key). \<open>JFunction\<close> is a built-in method reached through a prototype
  (\<open>"abc".bold\<close>, \<open>[].reverse\<close>); it never occurs inside a payload.
\<close>

datatype jsval =
    JUndefined
  | JNull
  | JBool bool
  | JNum int
  | JStr string
  | JArr "jsval list"
  | JObj "(string \<times> jsval) list"
  | JFunction string

text \<open>The coercion \<open>!!v\<close>.\<close>

fun to_boolean :: "jsval \<Rightarrow> bool" where
  "to_boolean JUndefined = False"
| "to_boolean JNull = False"
| "to_boolean (JBool b) = b"
| "to_boolean (JNum n) = (n \<noteq> 0)"
| "to_boolean (JStr s) = (s \<noteq> [])"
| "to_boolean (JArr xs) = True"
| "to_boolean (JObj kvs) = True"
| "to_boolean (JFunction f) = True"

text \<open>The property key of an array index: its decimal numeral.\<close>

fun index_key :: "nat \<Rightarrow> string" where
  "index_key n =
     (if n < 10 then [''0123456789'' ! n]
      else index_key (n div 10) @ [''0123456789'' ! (n mod 10)])"

text \<open>An own property of an object, \<open>undefined\<close> when it has none of that name.\<close>

definition own_prop :: "(string \<times> jsval) list \<Rightarrow> string \<Rightarrow> jsval" where
  "own_prop kvs name = (case map_of kvs name of None \<Rightarrow> JUndefined | Some v \<Rightarrow> v)"

text \<open>\<open>xs[i]\<close> on an array: the element, or \<open>undefined\<close> outside its range.\<close>

definition arr_at :: "jsval list \<Rightarrow> int \<Rightarrow> jsval" where
  "arr_at xs i = (if 0 \<le> i \<and> i < int (length xs) then xs ! nat i else JUndefined)"

text \<open>
  \<open>v[i]\<close> on any value. \<open>None\<close> is the TypeError JavaScript throws when \<open>v\<close> is
  \<open>undefined\<close> or \<open>null\<close>.
\<close>

fun js_index :: "jsval \<Rightarrow> nat \<Rightarrow> jsval option" where
  "js_index JUndefined i = None"
| "js_index JNull i = None"
| "js_index (JArr xs) i = Some (arr_at xs (int i))"
| "js_index (JStr s) i = Some (if i < length s then JStr [s ! i] else JUndefined)"
| "js_index (JObj kvs) i = Some (own_prop kvs (index_key i))"
| "js_index (JBool b) i = Some JUndefined"
| "js_index (JNum n) i = Some JUndefined"
| "js_index (JFunction f) i = Some JUndefined"

text \<open>
  \<open>v.name\<close> for the property names the decoder reads (bold, italic, reverse, underline,
  undercurl, foreground, background). Of these, strings inherit \<open>bold\<close> and arrays
  inherit \<open>reverse\<close> from their prototypes.
\<close>

fun js_prop :: "jsval \<Rightarrow> string \<Rightarrow> jsval option" where
  "js_prop JUndefined name = None"
| "js_prop JNull name = None"
| "js_prop (JObj kvs) name = Some (own_prop kvs name)"
| "js_prop (JStr s) name =
     Some (if name = ''bold'' then JFunction ''String.prototype.bold'' else JUndefined)"
| "js_prop (JArr xs) name =
     Some (if name = ''reverse'' then JFunction ''Array.prototype.reverse'' else JUndefined)"
| "js_prop (JBool b) name = Some JUndefined"
| "js_prop (JNum n) name = Some JUndefined"
| "js_prop (JFunction f) name = Some JUndefined"

section \<open>Actions and observable effects\<close>

text \<open>
  Modelled from the spec: the action creators of \<open>./actions\<close> are not part of the
  sources at hand. Each action is the call of its creator: a constructor that carries the
  arguments the adapter passes, in the order it passes them.
\<close>

datatype action =
    CursorGoto jsval jsval
  | Put "jsval list"
  | SetScrollRegion jsval jsval jsval jsval
  | Scroll jsval
  | SetHighlight bool bool bool bool bool jsval jsval
  | Resize jsval jsval
  | ClearToEndOfLine
  | Clear
  | UpdateBackground jsval
  | UpdateForeground jsval
  | ChangeMode jsval
  | SetFont string string real real

text \<open>
  A JavaScript number that a division produces: a finite double, written as the real
  number it denotes, an infinity or NaN. The sign of a zero is not kept.
\<close>

datatype jsnum = Finite real | PosInfinity | NegInfinity | NaN

text \<open>
  Everything the adapter does to the outside, in the order it does it: events on its own
  emitter, console output, calls on the Neovim client and calls on the plugin manager.
  \<open>Console_warn_concat p v\<close> is \<open>console.warn(p + v)\<close> for a payload value \<open>v\<close>.
\<close>

datatype effect =
    Emit_action action
  | Emit_mode_change jsval
  | Console_log string
  | Console_warn string
  | Console_warn_concat string jsval
  | Plugin_generateInitVim
  | Plugin_handleNotification jsval "jsval list"
  | Start_neovim
  | Nv_command string
  | Nv_on string
  | Nv_uiAttach int int bool
  | Nv_uiTryResize jsnum jsnum

datatype completion = Normal | Thrown

section \<open>The notification decoder\<close>

text \<open>
  The body of the \<open>forEach\<close> callback of \<open>_handleNotification\<close> on one element
  \<open>a\<close> of \<open>args\<close>: the effects of the invocation, or \<open>None\<close> when it throws a
  TypeError. In every branch the property reads come before the first \<open>emit\<close>, so an
  invocation that throws has had no effect. An element that is not an array has no
  \<open>shift\<close> method, and the call throws.
\<close>

definition forEach_callback :: "jsval \<Rightarrow> effect list option" where
  "forEach_callback a0 =
     (case a0 of
        JArr elems \<Rightarrow>
          (let command = arr_at elems 0;
               a = tl elems
           in
             if command = JStr ''cursor_goto'' then
               do { r \<leftarrow> js_index (arr_at a 0) 0;
                    c \<leftarrow> js_index (arr_at a 0) 1;
                    Some [Emit_action (CursorGoto r c)] }
             else if command = JStr ''put'' then
               do { charactersToPut \<leftarrow> those (map (\<lambda>v. js_index v 0) a);
                    Some [Emit_action (Put charactersToPut)] }
             else if command = JStr ''set_scroll_region'' then
               (let param = arr_at a 0 in
                do { p0 \<leftarrow> js_index param 0;
                     p1 \<leftarrow> js_index param 1;
                     p2 \<leftarrow> js_index param 2;
                     p3 \<leftarrow> js_index param 3;
                     Some [Emit_action (SetScrollRegion p0 p1 p2 p3)] })
             else if command = JStr ''scroll'' then
               do { n \<leftarrow> js_index (arr_at a 0) 0;
                    Some [Emit_action (Scroll n)] }
             else if command = JStr ''highlight_set'' then
               (let count = int (length a) in
                do { highlightInfo \<leftarrow> js_index (arr_at a (count - 1)) 0;
                     bold \<leftarrow> js_prop highlightInfo ''bold'';
                     italic \<leftarrow> js_prop highlightInfo ''italic'';
                     reverse \<leftarrow> js_prop highlightInfo ''reverse'';
                     underline \<leftarrow> js_prop highlightInfo ''underline'';
                     undercurl \<leftarrow> js_prop highlightInfo ''undercurl'';
                     foreground \<leftarrow> js_prop highlightInfo ''foreground'';
                     background \<leftarrow> js_prop highlightInfo ''background'';
                     Some [Emit_action (SetHighlight
                       (to_boolean bold) (to_boolean italic) (to_boolean reverse)
                       (to_boolean underline) (to_boolean undercurl)
                       foreground background)] })
             else if command = JStr ''resize'' then
               do { x \<leftarrow> js_index (arr_at a 0) 0;
                    y \<leftarrow> js_index (arr_at a 0) 1;
                    Some [Emit_action (Resize x y)] }
             else if command = JStr ''eol_clear'' then
               Some [Emit_action ClearToEndOfLine]
             else if command = JStr ''clear'' then
               Some [Emit_action Clear]
             else if command = JStr ''mouse_on'' then
               Some []
             else if command = JStr ''update_bg'' then
               do { c \<leftarrow> js_index (arr_at a 0) 0;
                    Some [Emit_action (UpdateBackground c)] }
             else if command = JStr ''update_fg'' then
               do { c \<leftarrow> js_index (arr_at a 0) 0;
                    Some [Emit_action (UpdateForeground c)] }
             else if command = JStr ''mode_change'' then
               do { newMode \<leftarrow> js_index (arr_at a 0) 0;
                    Some [Emit_action (ChangeMode newMode), Emit_mode_change newMode] }
             else
               Some [Console_warn_concat ''Unhandled command: '' command])
      | _ \<Rightarrow> None)"

text \<open>The command names that have a branch of their own in the callback, in its order.\<close>

definition handled_commands :: "string list" where
  "handled_commands =
     [''cursor_goto'', ''put'', ''set_scroll_region'', ''scroll'', ''highlight_set'',
      ''resize'', ''eol_clear'', ''clear'', ''mouse_on'', ''update_bg'', ''update_fg'',
      ''mode_change'']"

text \<open>
  \<open>args.forEach\<close>: the elements in order; an exception leaves the loop and the handler,
  and what was emitted before it stays emitted.
\<close>

fun forEach :: "jsval list \<Rightarrow> effect list \<times> completion" where
  "forEach [] = ([], Normal)"
| "forEach (a # as) =
     (case forEach_callback a of
        None \<Rightarrow> ([], Thrown)
      | Some es \<Rightarrow> (case forEach as of (es', c) \<Rightarrow> (es @ es', c)))"

text \<open>
  \<open>_handleNotification(method, args)\<close>. The params of a msgpack-rpc notification are an
  array, so \<open>args\<close> is the list of its elements.
\<close>

definition handleNotification :: "string \<Rightarrow> jsval list \<Rightarrow> effect list \<times> completion" where
  "handleNotification method args = forEach args"

text \<open>
  The listener registered for \<open>"notification"\<close>. On the plugin channel \<open>shift\<close> removes
  the method name from \<open>args[0]\<close> in place, and the call passes \<open>args\<close> itself.
\<close>

definition on_notification :: "string \<Rightarrow> jsval list \<Rightarrow> effect list \<times> completion" where
  "on_notification method args =
     (if method = ''redraw'' then handleNotification method args
      else if method = ''oni_plugin_notify'' then
        (case arr_at args 0 of
           JArr pluginArgs \<Rightarrow>
             (let pluginMethod = arr_at pluginArgs 0
              in ([Plugin_handleNotification pluginMethod (JArr (tl pluginArgs) # tl args)],
                  Normal))
         | _ \<Rightarrow> ([], Thrown))
      else ([Console_warn (''Unknown notification: '' @ method)], Normal))"

text \<open>The actions among a sequence of effects, in order.\<close>

fun actions_of :: "effect list \<Rightarrow> action list" where
  "actions_of [] = []"
| "actions_of (Emit_action x # es) = x # actions_of es"
| "actions_of (e # es) = actions_of es"

section \<open>Geometry and session\<close>

text \<open>
  The binary exponent of a positive number \<open>x\<close>: the \<open>e\<close> with
  \<open>2^e \<le> x < 2^(e+1)\<close>, read off the bit length of the integer part of \<open>x\<close>, or of
  \<open>1 / x\<close> below one.
\<close>

definition binary_exponent :: "real \<Rightarrow> int" where
  "binary_exponent x =
     (if 1 \<le> x then bitlen \<lfloor>x\<rfloor> - 1 else - bitlen (\<lceil>1 / x\<rceil> - 1))"

text \<open>The nearest integer, a tie going to the even one.\<close>

definition round_half_even :: "real \<Rightarrow> int" where
  "round_half_even r =
     (let f = \<lfloor>r\<rfloor>; d = r - of_int f
      in if d < 1 / 2 then f
         else if 1 / 2 < d then f + 1
         else if even f then f else f + 1)"

text \<open>
  The IEEE 754 double nearest to a real, ties to even: 53 significant bits at the
  exponent of \<open>x\<close>, the exponent not below \<open>-1022\<close> (subnormal numbers), and an infinity
  when the rounded magnitude reaches \<open>2^1024\<close>. Every arithmetic operation of
  JavaScript gives the exact result rounded this way.
\<close>

definition to_double :: "real \<Rightarrow> jsnum" where
  "to_double x =
     (if x = 0 then Finite 0
      else
        (let e = max (binary_exponent \<bar>x\<bar>) (- 1022);
             ulp = 2 powi (e - 52);
             y = of_int (round_half_even (x / ulp)) * ulp
         in if 2 ^ 1024 \<le> y then PosInfinity
            else if y \<le> - (2 ^ 1024) then NegInfinity
            else Finite y))"

text \<open>
  \<open>x / y\<close> for a double \<open>x\<close> and a metric \<open>y\<close> that is \<open>undefined\<close> before the
  first \<open>setFont\<close> (\<open>None\<close>): the quotient rounded to a double. \<open>Math.floor\<close> of a
  double is exact.
\<close>

definition js_divide :: "real \<Rightarrow> real option \<Rightarrow> jsnum" where
  "js_divide x y =
     (case y of
        None \<Rightarrow> NaN
      | Some d \<Rightarrow>
          if d \<noteq> 0 then to_double (x / d)
          else if 0 < x then PosInfinity
          else if x < 0 then NegInfinity
          else NaN)"

fun Math_floor :: "jsnum \<Rightarrow> jsnum" where
  "Math_floor (Finite r) = Finite (of_int \<lfloor>r\<rfloor>)"
| "Math_floor PosInfinity = PosInfinity"
| "Math_floor NegInfinity = NegInfinity"
| "Math_floor NaN = NaN"

text \<open>
  Modelled from the spec: \<open>./Config\<close> is not part of the sources at hand. The
  configuration is a value read at each call; \<open>debug_fixedSize\<close> is \<open>None\<close> when
  \<open>Config.hasValue("debug.fixedSize")\<close> is false.
\<close>

record fixedSize =
  fs_rows :: jsnum
  fs_columns :: jsnum

record config =
  editor_fontFamily :: string
  editor_fontSize :: string
  debug_fixedSize :: "fixedSize option"

datatype promise_state = Pending | Fulfilled | Rejected

text \<open>
  The fields of \<open>NeovimInstance\<close>. \<open>initCallbacks\<close> are the calls that the callbacks
  registered with \<open>_initPromise.then\<close> will make, in registration order; \<open>trace\<close> is
  what the instance has done so far.
\<close>

record neovim_instance =
  fontFamily :: string
  fontSize :: string
  fontWidthInPixels :: "real option"
  fontHeightInPixels :: "real option"
  lastHeightInPixels :: real
  lastWidthInPixels :: real
  initPromise :: promise_state
  initCallbacks :: "effect list"
  trace :: "effect list"

definition perform :: "effect \<Rightarrow> neovim_instance \<Rightarrow> neovim_instance" where
  "perform e s = s\<lparr>trace := trace s @ [e]\<rparr>"

definition resizeInternal :: "config \<Rightarrow> jsnum \<Rightarrow> jsnum \<Rightarrow> neovim_instance \<Rightarrow> neovim_instance" where
  "resizeInternal cfg rows columns s =
     (case debug_fixedSize cfg of
        Some fixed \<Rightarrow>
          (let s1 = perform (Console_warn ''Overriding screen size based on debug.fixedSize'') s
           in s1\<lparr>initCallbacks :=
                   initCallbacks s1 @ [Nv_uiTryResize (fs_columns fixed) (fs_rows fixed)]\<rparr>)
      | None \<Rightarrow> s\<lparr>initCallbacks := initCallbacks s @ [Nv_uiTryResize columns rows]\<rparr>)"

definition resize :: "config \<Rightarrow> real \<Rightarrow> real \<Rightarrow> neovim_instance \<Rightarrow> neovim_instance" where
  "resize cfg widthInPixels heightInPixels s =
     (let s1 = s\<lparr>lastWidthInPixels := widthInPixels, lastHeightInPixels := heightInPixels\<rparr>;
          rows = Math_floor (js_divide heightInPixels (fontHeightInPixels s1));
          cols = Math_floor (js_divide widthInPixels (fontWidthInPixels s1))
      in resizeInternal cfg rows cols s1)"

text \<open>\<open>measureFont\<close> of \<open>./measureFont\<close> is a parameter: it gives (width, height).\<close>

definition setFont ::
  "(string \<Rightarrow> string \<Rightarrow> real \<times> real) \<Rightarrow> config \<Rightarrow> string \<Rightarrow> string \<Rightarrow> neovim_instance \<Rightarrow> neovim_instance"
where
  "setFont measureFont cfg family fsize s =
     (case measureFont family fsize of
        (width, height) \<Rightarrow>
          (let s1 = s\<lparr>fontFamily := family, fontSize := fsize,
                      fontWidthInPixels := Some width, fontHeightInPixels := Some height\<rparr>;
               s2 = perform (Emit_action (SetFont family fsize width height)) s1
           in resize cfg (lastWidthInPixels s2) (lastHeightInPixels s2) s2))"

text \<open>
  The constructor up to its return: the promise of \<open>startNeovim\<close> is pending, and
  \<open>setFont("Consolas", "14px")\<close> has registered the first resize.
\<close>

definition new_NeovimInstance ::
  "(string \<Rightarrow> string \<Rightarrow> real \<times> real) \<Rightarrow> config \<Rightarrow> real \<Rightarrow> real \<Rightarrow> neovim_instance"
where
  "new_NeovimInstance measureFont cfg widthInPixels heightInPixels =
     setFont measureFont cfg ''Consolas'' ''14px''
       \<lparr>fontFamily = editor_fontFamily cfg,
        fontSize = editor_fontSize cfg,
        fontWidthInPixels = None,
        fontHeightInPixels = None,
        lastHeightInPixels = heightInPixels,
        lastWidthInPixels = widthInPixels,
        initPromise = Pending,
        initCallbacks = [],
        trace = [Plugin_generateInitVim, Start_neovim]\<rparr>"

text \<open>
  \<open>startNeovim\<close> settles. When it fulfils, the callback of the constructor runs: it logs,
  sets the colour scheme, registers the listeners and attaches the UI. When it rejects,
  \<open>_initPromise\<close> is rejected and that callback never runs.
\<close>

definition startNeovim_fulfilled :: "neovim_instance \<Rightarrow> neovim_instance" where
  "startNeovim_fulfilled s =
     (if initPromise s = Pending then
        s\<lparr>initPromise := Fulfilled,
          trace := trace s @
            [Console_log ''NevoimInstance: Neovim started'',
             Nv_command ''colorscheme onedark'',
             Nv_on ''notification'',
             Nv_on ''request'',
             Nv_on ''disconnect'',
             Nv_uiAttach 80 40 True]\<rparr>
      else s)"

definition startNeovim_rejected :: "neovim_instance \<Rightarrow> neovim_instance" where
  "startNeovim_rejected s = (if initPromise s = Pending then s\<lparr>initPromise := Rejected\<rparr> else s)"

text \<open>
  A turn of the event loop: the callbacks registered with \<open>_initPromise.then\<close> run once
  the promise is fulfilled, in registration order; on a rejected promise they never run.
\<close>

definition run_initCallbacks :: "neovim_instance \<Rightarrow> neovim_instance" where
  "run_initCallbacks s =
     (case initPromise s of
        Pending \<Rightarrow> s
      | Fulfilled \<Rightarrow> s\<lparr>initCallbacks := [], trace := trace s @ initCallbacks s\<rparr>
      | Rejected \<Rightarrow> s\<lparr>initCallbacks := []\<rparr>)"

text \<open>The resize requests among a sequence of effects, in order.\<close>

fun resize_requests :: "effect list \<Rightarrow> (jsnum \<times> jsnum) list" where
  "resize_requests [] = []"
| "resize_requests (Nv_uiTryResize c r # es) = (c, r) # resize_requests es"
| "resize_requests (e # es) = resize_requests es"

fun attach_requests :: "effect list \<Rightarrow> (int \<times> int \<times> bool) list" where
  "attach_requests [] = []"
| "attach_requests (Nv_uiAttach c r b # es) = (c, r, b) # attach_requests es"
| "attach_requests (e # es) = attach_requests es"

section \<open>Properties of the decoder\<close>

lemma actions_of_append: "actions_of (xs @ ys) = actions_of xs @ actions_of ys"
  by (induction xs rule: actions_of.induct) simp_all

lemma forEach_append:
  "forEach (xs @ ys) =
     (case forEach xs of
        (es, Thrown) \<Rightarrow> (es, Thrown)
      | (es, Normal) \<Rightarrow> (case forEach ys of (es', c) \<Rightarrow> (es @ es', c)))"
  by (induction xs) (auto split: option.splits prod.splits completion.splits)


lemma those_first_fields:
  "those (map (\<lambda>v. js_index v 0) (map JArr ts)) = Some (map (\<lambda>t. arr_at t 0) ts)"
  by (induction ts) simp_all

lemma unhandled_callback:
  assumes "c \<notin> JStr ` set handled_commands"
  shows "forEach_callback (JArr (c # ts)) = Some [Console_warn_concat ''Unhandled command: '' c]"
proof -
  from assms have
    "c \<noteq> JStr ''cursor_goto''" "c \<noteq> JStr ''put''" "c \<noteq> JStr ''set_scroll_region''"
    "c \<noteq> JStr ''scroll''" "c \<noteq> JStr ''highlight_set''" "c \<noteq> JStr ''resize''"
    "c \<noteq> JStr ''eol_clear''" "c \<noteq> JStr ''clear''" "c \<noteq> JStr ''mouse_on''"
    "c \<noteq> JStr ''update_bg''" "c \<noteq> JStr ''update_fg''" "c \<noteq> JStr ''mode_change''"
    unfolding handled_commands_def by auto
  then show ?thesis
    by (simp add: forEach_callback_def arr_at_def)
qed



text \<open>
  C3. A \<open>put\<close> batch whose N parameter tuples are arrays emits exactly one Put action;
  its payload is the first field of each tuple, in tuple order.
\<close>

theorem put_one_action_for_batch:
  "forEach_callback (JArr (JStr ''put'' # map JArr ts)) =
     Some [Emit_action (Put (map (\<lambda>t. arr_at t 0) ts))]"
proof -
  have cmd: "arr_at (JStr ''put'' # map JArr ts) 0 = JStr ''put''"
    by (simp add: arr_at_def)
  show ?thesis
    by (simp add: forEach_callback_def cmd those_first_fields del: map_map)
qed

theorem put_one_action_for_batch_witness:
  "forEach_callback (JArr (JStr ''put'' # map JArr [[JStr ''a''], [JStr ''b''], [JStr ''c'']])) =
     Some [Emit_action (Put (map (\<lambda>t. arr_at t 0) [[JStr ''a''], [JStr ''b''], [JStr ''c'']]))]"
  by (rule put_one_action_for_batch)

text \<open>
  C2. A \<open>highlight_set\<close> batch emits what the batch of its last tuple alone emits: the
  earlier tuples are not read. When the first field of the last tuple is an object, the
  action is SetHighlight with the truth values of its bold, italic, reverse, underline and
  undercurl properties and with its foreground and background as they are.
\<close>

theorem highlight_set_last_tuple:
  "forEach_callback (JArr (JStr ''highlight_set'' # earlier @ [t])) =
     forEach_callback (JArr [JStr ''highlight_set'', t])
   \<and> forEach_callback (JArr (JStr ''highlight_set'' # earlier @ [JArr (JObj kvs # rest)])) =
     Some [Emit_action (SetHighlight
       (to_boolean (own_prop kvs ''bold'')) (to_boolean (own_prop kvs ''italic''))
       (to_boolean (own_prop kvs ''reverse'')) (to_boolean (own_prop kvs ''underline''))
       (to_boolean (own_prop kvs ''undercurl''))
       (own_prop kvs ''foreground'') (own_prop kvs ''background''))]"
  by (simp add: forEach_callback_def arr_at_def nth_append)

theorem highlight_set_last_tuple_witness:
  "forEach_callback (JArr (JStr ''highlight_set'' #
       [JArr [JObj [(''bold'', JBool False), (''foreground'', JNum 1)]]] @
       [JArr (JObj [(''bold'', JNum 1), (''background'', JNum 255)] # [])])) =
     Some [Emit_action (SetHighlight True False False False False JUndefined (JNum 255))]"
  using highlight_set_last_tuple
    [of "[JArr [JObj [(''bold'', JBool False), (''foreground'', JNum 1)]]]"
        "JArr [JObj [(''bold'', JNum 1), (''background'', JNum 255)]]"
        "[(''bold'', JNum 1), (''background'', JNum 255)]" "[]", THEN conjunct2]
  by (simp add: own_prop_def)

text \<open>
  C7. A batch whose command name has no branch in the callback is reported with
  \<open>console.warn\<close> and emits nothing, and the loop goes on: the notification emits the
  actions it would emit without that batch, and completes as it would without it.
\<close>

theorem unknown_command_skipped:
  assumes "c \<notin> JStr ` set handled_commands"
  shows "forEach_callback (JArr (c # ts)) =
           Some [Console_warn_concat ''Unhandled command: '' c]
   \<and> actions_of (fst (on_notification ''redraw'' (xs @ JArr (c # ts) # ys))) =
       actions_of (fst (on_notification ''redraw'' (xs @ ys)))
   \<and> snd (on_notification ''redraw'' (xs @ JArr (c # ts) # ys)) =
       snd (on_notification ''redraw'' (xs @ ys))"
proof -
  have cb: "forEach_callback (JArr (c # ts)) =
      Some [Console_warn_concat ''Unhandled command: '' c]"
    using assms by (rule unhandled_callback)
  have one: "forEach (JArr (c # ts) # ys) =
      (Console_warn_concat ''Unhandled command: '' c # fst (forEach ys), snd (forEach ys))"
    by (simp add: cb split: prod.splits)
  show ?thesis
    by (simp add: cb on_notification_def handleNotification_def forEach_append [of xs] one
        actions_of_append split: prod.splits completion.splits)
qed

theorem unknown_command_skipped_witness:
  "JStr ''bogus'' \<notin> JStr ` set handled_commands
   \<and> on_notification ''redraw'' ([] @ JArr (JStr ''bogus'' # [JArr []]) # [JArr [JStr ''clear'']])
       = ([Console_warn_concat ''Unhandled command: '' (JStr ''bogus''), Emit_action Clear],
          Normal)
   \<and> actions_of (fst (on_notification ''redraw''
        ([] @ JArr (JStr ''bogus'' # [JArr []]) # [JArr [JStr ''clear'']]))) = [Clear]"
proof -
  have h: "JStr ''bogus'' \<notin> JStr ` set handled_commands"
    by (simp add: handled_commands_def)
  have clear: "on_notification ''redraw'' ([] @ [JArr [JStr ''clear'']]) =
      ([Emit_action Clear], Normal)"
    by (simp add: on_notification_def handleNotification_def forEach_callback_def arr_at_def)
  show ?thesis
    using h clear
      unknown_command_skipped [OF h, of "[JArr []]" "[]" "[JArr [JStr ''clear'']]"]
    by (simp add: on_notification_def handleNotification_def)
qed

text \<open>
  C9. \<open>mouse_on\<close> has a branch of its own that does nothing. \<open>mouse_off\<close> has none: it
  falls through to the final \<open>else\<close> and is reported as an unhandled command.
\<close>

theorem mouse_off_reported_unhandled:
  "on_notification ''redraw'' [JArr [JStr ''mouse_off'', JArr []]] =
     ([Console_warn_concat ''Unhandled command: '' (JStr ''mouse_off'')], Normal)
   \<and> on_notification ''redraw'' [JArr [JStr ''mouse_on'', JArr []]] = ([], Normal)"
  by (simp add: on_notification_def handleNotification_def forEach_callback_def arr_at_def)

text \<open>
  C6, as stated: the payload \<open>[["pluginMethod", "x", "y"]]\<close> on the plugin channel would
  reach the plugin manager as \<open>("pluginMethod", ["x", "y"])\<close>. It does not.
\<close>

theorem plugin_notify_arguments_counterexample:
  "fst (on_notification ''oni_plugin_notify''
          [JArr [JStr ''pluginMethod'', JStr ''x'', JStr ''y'']])
   \<noteq> [Plugin_handleNotification (JStr ''pluginMethod'') [JStr ''x'', JStr ''y'']]"
  by (simp add: on_notification_def arr_at_def)

text \<open>
  C6, amended. On the plugin channel the first field of the first payload element is taken
  off that element and used as the method name, and the plugin manager receives the whole
  payload, its first element so shortened: \<open>[["pluginMethod", "x", "y"]]\<close> arrives as
  \<open>("pluginMethod", [["x", "y"]])\<close>. Nothing else happens: no action is emitted.
\<close>

theorem plugin_notify_forwards_payload:
  "on_notification ''oni_plugin_notify'' (JArr (m # rest) # others) =
     ([Plugin_handleNotification m (JArr rest # others)], Normal)
   \<and> actions_of (fst (on_notification ''oni_plugin_notify'' (JArr (m # rest) # others))) = []"
  by (simp add: on_notification_def arr_at_def)

theorem plugin_notify_forwards_payload_witness:
  "on_notification ''oni_plugin_notify''
      (JArr (JStr ''pluginMethod'' # [JStr ''x'', JStr ''y'']) # []) =
     ([Plugin_handleNotification (JStr ''pluginMethod'') (JArr [JStr ''x'', JStr ''y''] # [])],
      Normal)"
  using plugin_notify_forwards_payload
    [of "JStr ''pluginMethod''" "[JStr ''x'', JStr ''y'']" "[]"]
  by simp

section \<open>Properties of the geometry negotiation\<close>

lemma resize_requests_append:
  "resize_requests (xs @ ys) = resize_requests xs @ resize_requests ys"
  by (induction xs rule: resize_requests.induct) simp_all

lemma attach_requests_append:
  "attach_requests (xs @ ys) = attach_requests xs @ attach_requests ys"
  by (induction xs rule: attach_requests.induct) simp_all

text \<open>The exponent and the rounding are what their names say.\<close>

lemma binary_exponent_bounds:
  assumes "0 < x"
  shows "2 powi binary_exponent x \<le> x \<and> x < 2 powi (binary_exponent x + 1)"
proof (cases "1 \<le> x")
  case True
  define n where "n = \<lfloor>x\<rfloor>"
  have n: "0 < n" using True by (simp add: n_def)
  have b1: "1 \<le> bitlen n" using n by (simp add: bitlen_alt_def)
  from bitlen_bounds [OF n]
  have lo: "2 ^ nat (bitlen n - 1) \<le> n" and hi: "n < 2 ^ nat (bitlen n)" by auto
  have e: "binary_exponent x = bitlen n - 1"
    using True by (simp add: binary_exponent_def n_def)
  have "(2::real) powi (bitlen n - 1) = 2 ^ nat (bitlen n - 1)"
    using b1 by (simp add: power_int_def)
  also have "\<dots> = of_int (2 ^ nat (bitlen n - 1))" by simp
  also have "\<dots> \<le> of_int n" using lo by (simp only: of_int_le_iff)
  also have "\<dots> \<le> x" by (simp add: n_def)
  finally have A: "2 powi (bitlen n - 1) \<le> x" .
  have "n + 1 \<le> 2 ^ nat (bitlen n)" using hi by simp
  then have "real_of_int (n + 1) \<le> of_int (2 ^ nat (bitlen n))" by (simp only: of_int_le_iff)
  then have "of_int n + 1 \<le> (2::real) ^ nat (bitlen n)" by simp
  moreover have "x < of_int n + 1" by (simp add: n_def)
  moreover have "(2::real) powi (bitlen n - 1 + 1) = 2 ^ nat (bitlen n)"
    using b1 by (simp add: power_int_def)
  ultimately have B: "x < 2 powi (bitlen n - 1 + 1)" by simp
  from A B e show ?thesis by simp
next
  case False
  define m where "m = \<lceil>1 / x\<rceil> - 1"
  from False assms have y: "1 < 1 / x" by simp
  then have m: "0 < m" by (simp add: m_def)
  have b1: "1 \<le> bitlen m" using m by (simp add: bitlen_alt_def)
  from bitlen_bounds [OF m]
  have lo: "2 ^ nat (bitlen m - 1) \<le> m" and hi: "m < 2 ^ nat (bitlen m)" by auto
  have e: "binary_exponent x = - bitlen m"
    using False by (simp add: binary_exponent_def m_def)
  have "m + 1 \<le> 2 ^ nat (bitlen m)" using hi by simp
  then have "real_of_int (m + 1) \<le> of_int (2 ^ nat (bitlen m))" by (simp only: of_int_le_iff)
  then have "of_int m + 1 \<le> (2::real) ^ nat (bitlen m)" by simp
  moreover have "1 / x \<le> of_int m + 1" by (simp add: m_def)
  ultimately have "1 / x \<le> 2 ^ nat (bitlen m)" by simp
  then have "1 \<le> 2 ^ nat (bitlen m) * x" using assms by (simp add: field_simps)
  then have "inverse (2 ^ nat (bitlen m)) \<le> x" by (simp add: field_simps)
  moreover have "(2::real) powi (- bitlen m) = inverse (2 ^ nat (bitlen m))"
    using b1 by (simp add: power_int_minus) (simp add: power_int_def)
  ultimately have A: "2 powi (- bitlen m) \<le> x" by simp
  have "real_of_int (2 ^ nat (bitlen m - 1)) \<le> of_int m" using lo by (simp only: of_int_le_iff)
  then have "(2::real) ^ nat (bitlen m - 1) \<le> of_int m" by simp
  moreover have "of_int m < 1 / x" by (simp add: m_def) linarith
  ultimately have "(2::real) ^ nat (bitlen m - 1) < 1 / x" by linarith
  then have "x * 2 ^ nat (bitlen m - 1) < 1" using assms by (simp add: field_simps)
  then have "x < inverse (2 ^ nat (bitlen m - 1))" by (simp add: field_simps)
  moreover have "(2::real) powi (- bitlen m + 1) = inverse (2 ^ nat (bitlen m - 1))"
    using b1 power_int_minus [of "2::real" "bitlen m - 1"] by (simp add: power_int_def)
  ultimately have B: "x < 2 powi (- bitlen m + 1)" by simp
  from A B e show ?thesis by simp
qed

lemma round_half_even_nearest: "\<bar>of_int (round_half_even r) - r\<bar> \<le> 1 / 2"
  unfolding round_half_even_def Let_def by (auto simp: abs_if) linarith+

text \<open>
  The double nearest to 7.2 is \<open>8106479329266893 / 2^50\<close>, a little above 7.2; 720
  divided by it is a little below 100 and rounds to the double 100.
\<close>

lemma to_double_72_tenths: "to_double (72 / 10) = Finite (8106479329266893 / 2 ^ 50)"
  by (simp add: to_double_def binary_exponent_def round_half_even_def Let_def compute_bitlen)

lemma floor_720_by_double_7_2:
  "Math_floor (js_divide 720 (Some (8106479329266893 / 2 ^ 50))) = Finite 100"
  by (simp add: js_divide_def to_double_def binary_exponent_def round_half_even_def Let_def
        compute_bitlen)

lemma floor_768_by_16: "Math_floor (js_divide 768 (Some 16)) = Finite 48"
  by (simp add: js_divide_def to_double_def binary_exponent_def round_half_even_def Let_def
        compute_bitlen)

lemma floor_805_by_10: "Math_floor (js_divide 805 (Some 10)) = Finite 80"
  by (simp add: js_divide_def to_double_def binary_exponent_def round_half_even_def Let_def
        compute_bitlen)

lemma floor_403_by_10: "Math_floor (js_divide 403 (Some 10)) = Finite 40"
  by (simp add: js_divide_def to_double_def binary_exponent_def round_half_even_def Let_def
        compute_bitlen)

lemma floor_800_by_10: "Math_floor (js_divide 800 (Some 10)) = Finite 80"
  by (simp add: js_divide_def to_double_def binary_exponent_def round_half_even_def Let_def
        compute_bitlen)

lemma floor_400_by_10: "Math_floor (js_divide 400 (Some 10)) = Finite 40"
  by (simp add: js_divide_def to_double_def binary_exponent_def round_half_even_def Let_def
        compute_bitlen)

text \<open>
  C4, as stated: a viewport change that maps to the grid size of the last request would
  issue no request. Here the last request carried 80 columns and 40 rows for 805 by 403
  pixels on 10 by 10 cells; the viewport changes to 800 by 400 pixels, the same grid, and a
  second request with the same numbers goes out.
\<close>

theorem resize_same_grid_counterexample:
  "resize_requests (trace (run_initCallbacks (resize
      \<lparr>editor_fontFamily = ''Consolas'', editor_fontSize = ''14px'', debug_fixedSize = None\<rparr>
      800 400
      \<lparr>fontFamily = ''Consolas'', fontSize = ''14px'',
       fontWidthInPixels = Some 10, fontHeightInPixels = Some 10,
       lastHeightInPixels = 403, lastWidthInPixels = 805,
       initPromise = Fulfilled, initCallbacks = [],
       trace = [Nv_uiTryResize (Finite 80) (Finite 40)]\<rparr>)))
   = [(Finite 80, Finite 40), (Finite 80, Finite 40)]"
  by (simp add: resize_def resizeInternal_def run_initCallbacks_def
        floor_800_by_10 floor_400_by_10)

text \<open>
  C4, amended. Every viewport change issues one resize request through the session, whether
  or not the grid size changed: without the fixed-size override and once Neovim has
  started, \<open>resize\<close> adds to what the instance has done exactly the request
  \<open>uiTryResize(Math.floor(width / cellWidth), Math.floor(height / cellHeight))\<close>, the
  divisions being those of JavaScript doubles. No last negotiated size is kept or compared.
\<close>

theorem resize_always_requests:
  assumes "debug_fixedSize cfg = None"
    and "initPromise s = Fulfilled"
    and "initCallbacks s = []"
  shows "trace (run_initCallbacks (resize cfg w h s)) =
     trace s @ [Nv_uiTryResize (Math_floor (js_divide w (fontWidthInPixels s)))
                               (Math_floor (js_divide h (fontHeightInPixels s)))]"
  using assms
  by (simp add: resize_def resizeInternal_def run_initCallbacks_def)

theorem resize_always_requests_witness:
  "trace (run_initCallbacks (resize
      \<lparr>editor_fontFamily = ''Consolas'', editor_fontSize = ''14px'', debug_fixedSize = None\<rparr>
      720 768
      \<lparr>fontFamily = ''Consolas'', fontSize = ''14px'',
       fontWidthInPixels = Some (8106479329266893 / 2 ^ 50), fontHeightInPixels = Some 16,
       lastHeightInPixels = 768, lastWidthInPixels = 720,
       initPromise = Fulfilled, initCallbacks = [],
       trace = [Nv_uiTryResize (Finite 100) (Finite 48)]\<rparr>))
   = [Nv_uiTryResize (Finite 100) (Finite 48), Nv_uiTryResize (Finite 100) (Finite 48)]"
proof -
  let ?cfg = "\<lparr>editor_fontFamily = ''Consolas'', editor_fontSize = ''14px'',
               debug_fixedSize = None\<rparr>"
  let ?s = "\<lparr>fontFamily = ''Consolas'', fontSize = ''14px'',
             fontWidthInPixels = Some (8106479329266893 / 2 ^ 50),
             fontHeightInPixels = Some 16,
             lastHeightInPixels = 768, lastWidthInPixels = 720,
             initPromise = Fulfilled, initCallbacks = [],
             trace = [Nv_uiTryResize (Finite 100) (Finite 48)]\<rparr>"
  have h1: "debug_fixedSize ?cfg = None" by simp
  have h2: "initPromise ?s = Fulfilled" by simp
  have h3: "initCallbacks ?s = []" by simp
  have w: "fontWidthInPixels ?s = Some (8106479329266893 / 2 ^ 50)" by simp
  have h: "fontHeightInPixels ?s = Some 16" by simp
  show ?thesis
    using resize_always_requests [OF h1 h2 h3, of 720 768]
    by (simp only: w h floor_720_by_double_7_2 floor_768_by_16 neovim_instance.simps
          append.simps)
qed

text \<open>
  C5. While \<open>debug.fixedSize\<close> is configured, the request that \<open>resize\<close> and
  \<open>setFont\<close> register carries the configured columns and rows, whatever the pixel size
  and the font are; once Neovim has started, that is the request that goes out.
\<close>

theorem fixed_size_overrides:
  assumes "debug_fixedSize cfg = Some fixed"
  shows "initCallbacks (resize cfg w h s) =
           initCallbacks s @ [Nv_uiTryResize (fs_columns fixed) (fs_rows fixed)]
     \<and> initCallbacks (setFont measureFont cfg family fsize s) =
           initCallbacks s @ [Nv_uiTryResize (fs_columns fixed) (fs_rows fixed)]
     \<and> (initPromise s = Fulfilled \<longrightarrow>
          resize_requests (trace (run_initCallbacks (resize cfg w h s))) =
            resize_requests (trace s) @ resize_requests (initCallbacks s)
              @ [(fs_columns fixed, fs_rows fixed)])
     \<and> (initPromise s = Fulfilled \<longrightarrow>
          resize_requests (trace (run_initCallbacks (setFont measureFont cfg family fsize s))) =
            resize_requests (trace s) @ resize_requests (initCallbacks s)
              @ [(fs_columns fixed, fs_rows fixed)])"
  using assms
  by (simp add: setFont_def resize_def resizeInternal_def run_initCallbacks_def perform_def
       resize_requests_append split: prod.splits)

theorem fixed_size_overrides_witness:
  "debug_fixedSize
      \<lparr>editor_fontFamily = ''Consolas'', editor_fontSize = ''14px'',
       debug_fixedSize = Some \<lparr>fs_rows = Finite 30, fs_columns = Finite 100\<rparr>\<rparr>
     = Some \<lparr>fs_rows = Finite 30, fs_columns = Finite 100\<rparr>
   \<and> resize_requests (trace (run_initCallbacks (resize
        \<lparr>editor_fontFamily = ''Consolas'', editor_fontSize = ''14px'',
         debug_fixedSize = Some \<lparr>fs_rows = Finite 30, fs_columns = Finite 100\<rparr>\<rparr>
        805 403
        \<lparr>fontFamily = ''Consolas'', fontSize = ''14px'',
         fontWidthInPixels = Some 10, fontHeightInPixels = Some 10,
         lastHeightInPixels = 0, lastWidthInPixels = 0,
         initPromise = Fulfilled, initCallbacks = [], trace = []\<rparr>)))
     = [(Finite 100, Finite 30)]"
proof -
  have h: "debug_fixedSize
      \<lparr>editor_fontFamily = ''Consolas'', editor_fontSize = ''14px'',
       debug_fixedSize = Some \<lparr>fs_rows = Finite 30, fs_columns = Finite 100\<rparr>\<rparr>
     = Some \<lparr>fs_rows = Finite 30, fs_columns = Finite 100\<rparr>"
    by simp
  show ?thesis
    using h fixed_size_overrides
      [OF h, of 805 403
        "\<lparr>fontFamily = ''Consolas'', fontSize = ''14px'',
          fontWidthInPixels = Some 10, fontHeightInPixels = Some 10,
          lastHeightInPixels = 0, lastWidthInPixels = 0,
          initPromise = Fulfilled, initCallbacks = [], trace = []\<rparr>"
        "\<lambda>f z. (10, 10)" "''Consolas''" "''14px''"]
    by simp
qed

text \<open>
  C8. On 10 by 10 pixel cells, without the fixed-size override and once Neovim has
  started, \<open>resize(805, 403)\<close> issues exactly one more resize request, and it carries 80
  columns and 40 rows, columns first.
\<close>

theorem resize_805_403:
  assumes "debug_fixedSize cfg = None"
    and "initPromise s = Fulfilled"
    and "initCallbacks s = []"
    and "fontWidthInPixels s = Some 10"
    and "fontHeightInPixels s = Some 10"
  shows "resize_requests (trace (run_initCallbacks (resize cfg 805 403 s))) =
     resize_requests (trace s) @ [(Finite 80, Finite 40)]"
  using assms
  by (simp add: resize_def resizeInternal_def run_initCallbacks_def
       floor_805_by_10 floor_403_by_10 resize_requests_append)

theorem resize_805_403_witness:
  "resize_requests (trace (run_initCallbacks (resize
      \<lparr>editor_fontFamily = ''Consolas'', editor_fontSize = ''14px'', debug_fixedSize = None\<rparr>
      805 403
      \<lparr>fontFamily = ''Consolas'', fontSize = ''14px'',
       fontWidthInPixels = Some 10, fontHeightInPixels = Some 10,
       lastHeightInPixels = 0, lastWidthInPixels = 0,
       initPromise = Fulfilled, initCallbacks = [],
       trace = [Nv_uiAttach 80 40 True]\<rparr>)))
   = [(Finite 80, Finite 40)]"
proof -
  let ?cfg = "\<lparr>editor_fontFamily = ''Consolas'', editor_fontSize = ''14px'',
               debug_fixedSize = None\<rparr>"
  let ?s = "\<lparr>fontFamily = ''Consolas'', fontSize = ''14px'',
             fontWidthInPixels = Some 10, fontHeightInPixels = Some 10,
             lastHeightInPixels = 0, lastWidthInPixels = 0,
             initPromise = Fulfilled, initCallbacks = [],
             trace = [Nv_uiAttach 80 40 True]\<rparr>"
  have h1: "debug_fixedSize ?cfg = None" by simp
  have h2: "initPromise ?s = Fulfilled" by simp
  have h3: "initCallbacks ?s = []" by simp
  have h4: "fontWidthInPixels ?s = Some 10" by simp
  have h5: "fontHeightInPixels ?s = Some 10" by simp
  show ?thesis
    using resize_805_403 [OF h1 h2 h3 h4 h5] by simp
qed

lemma resizeInternal_attach:
  "attach_requests (trace (resizeInternal cfg r c s)) = attach_requests (trace s)
   \<and> attach_requests (initCallbacks (resizeInternal cfg r c s)) =
       attach_requests (initCallbacks s)
   \<and> initPromise (resizeInternal cfg r c s) = initPromise s"
  by (cases "debug_fixedSize cfg")
     (simp_all add: resizeInternal_def perform_def attach_requests_append)

lemma new_NeovimInstance_attach:
  "attach_requests (trace (new_NeovimInstance measureFont cfg w h)) = []
   \<and> attach_requests (initCallbacks (new_NeovimInstance measureFont cfg w h)) = []
   \<and> initPromise (new_NeovimInstance measureFont cfg w h) = Pending"
  by (cases "measureFont ''Consolas'' ''14px''")
     (simp add: new_NeovimInstance_def setFont_def resize_def Let_def resizeInternal_attach
        perform_def)

text \<open>
  C10. Whatever pixel size, configuration and font measure the constructor is given, the
  only attach request of a new instance is \<open>uiAttach(80, 40, true)\<close>, made when Neovim has
  started; before that, and when Neovim fails to start, there is none.
\<close>

theorem attach_is_80_by_40:
  "attach_requests (trace (run_initCallbacks (startNeovim_fulfilled
       (new_NeovimInstance measureFont cfg widthInPixels heightInPixels)))) = [(80, 40, True)]
   \<and> attach_requests (trace (new_NeovimInstance measureFont cfg widthInPixels heightInPixels))
       = []
   \<and> attach_requests (trace (run_initCallbacks (startNeovim_rejected
       (new_NeovimInstance measureFont cfg widthInPixels heightInPixels)))) = []"
  by (simp add: run_initCallbacks_def startNeovim_fulfilled_def startNeovim_rejected_def
        new_NeovimInstance_attach attach_requests_append)

theorem attach_is_80_by_40_witness:
  "attach_requests (trace (run_initCallbacks (startNeovim_fulfilled
       (new_NeovimInstance (\<lambda>family fsize. (7, 15))
          \<lparr>editor_fontFamily = ''Consolas'', editor_fontSize = ''14px'',
           debug_fixedSize = None\<rparr> 1920 1080)))) = [(80, 40, True)]"
  using attach_is_80_by_40
    [of "\<lambda>family fsize. (7, 15)"
        "\<lparr>editor_fontFamily = ''Consolas'', editor_fontSize = ''14px'',
          debug_fixedSize = None\<rparr>" 1920 1080]
  by simp

end
